theory Spec2Isabelle
  imports Complex_Main
begin

section \<open>Tensors and the TensorFlow operations the capsule layer uses\<close>

text \<open>
  A dense tensor of rank \<open>n\<close> is a list nested \<open>n\<close> times, outermost axis first.
  The entries are real numbers, where the program computes in \<open>float32\<close>: the
  theorems say which operations the program performs, in which order and on which
  entries, and what it returns or raises. They are not statements about the values
  \<open>float32\<close> arithmetic yields, with its rounding, underflow and overflow: no exact
  value of a softmax entry and no strict bound on the length of a squashed vector is
  stated.
\<close>

type_synonym tensor1 = "real list"
type_synonym tensor2 = "tensor1 list"
type_synonym tensor3 = "tensor2 list"
type_synonym tensor4 = "tensor3 list"
type_synonym tensor5 = "tensor4 list"

datatype py_error = AssertionError | UnboundLocalError | ValueError | TypeError

text \<open>
  \<open>t.get_shape() == [a, b, ...]\<close> on a tensor whose static shape is fully known.
\<close>

definition is_shape1 :: "nat \<Rightarrow> tensor1 \<Rightarrow> bool" where
  "is_shape1 a t \<longleftrightarrow> length t = a"

definition is_shape2 :: "nat \<Rightarrow> nat \<Rightarrow> tensor2 \<Rightarrow> bool" where
  "is_shape2 a b t \<longleftrightarrow> length t = a \<and> list_all (is_shape1 b) t"

definition is_shape3 :: "nat \<Rightarrow> nat \<Rightarrow> nat \<Rightarrow> tensor3 \<Rightarrow> bool" where
  "is_shape3 a b c t \<longleftrightarrow> length t = a \<and> list_all (is_shape2 b c) t"

definition is_shape4 :: "nat \<Rightarrow> nat \<Rightarrow> nat \<Rightarrow> nat \<Rightarrow> tensor4 \<Rightarrow> bool" where
  "is_shape4 a b c d t \<longleftrightarrow> length t = a \<and> list_all (is_shape3 b c d) t"

definition is_shape5 :: "nat \<Rightarrow> nat \<Rightarrow> nat \<Rightarrow> nat \<Rightarrow> nat \<Rightarrow> tensor5 \<Rightarrow> bool" where
  "is_shape5 a b c d e t \<longleftrightarrow> length t = a \<and> list_all (is_shape4 b c d e) t"

text \<open>
  \<open>tab1 n f\<close> is the vector \<open>[f 0, ..., f (n - 1)]\<close>; \<open>tab3\<close>, \<open>tab4\<close> and \<open>tab5\<close>
  build the tensor with given entries.
\<close>

definition tab1 :: "nat \<Rightarrow> (nat \<Rightarrow> 'a) \<Rightarrow> 'a list" where
  "tab1 n f = map f [0..<n]"

definition tab2 :: "nat \<Rightarrow> nat \<Rightarrow> (nat \<Rightarrow> nat \<Rightarrow> 'a) \<Rightarrow> 'a list list" where
  "tab2 a b f = tab1 a (\<lambda>i. tab1 b (f i))"

definition tab3 :: "nat \<Rightarrow> nat \<Rightarrow> nat \<Rightarrow> (nat \<Rightarrow> nat \<Rightarrow> nat \<Rightarrow> 'a) \<Rightarrow> 'a list list list" where
  "tab3 a b c f = tab1 a (\<lambda>i. tab2 b c (f i))"

definition tab4 ::
  "nat \<Rightarrow> nat \<Rightarrow> nat \<Rightarrow> nat \<Rightarrow> (nat \<Rightarrow> nat \<Rightarrow> nat \<Rightarrow> nat \<Rightarrow> 'a) \<Rightarrow> 'a list list list list" where
  "tab4 a b c d f = tab1 a (\<lambda>i. tab3 b c d (f i))"

definition tab5 ::
  "nat \<Rightarrow> nat \<Rightarrow> nat \<Rightarrow> nat \<Rightarrow> nat \<Rightarrow> (nat \<Rightarrow> nat \<Rightarrow> nat \<Rightarrow> nat \<Rightarrow> nat \<Rightarrow> 'a)
    \<Rightarrow> 'a list list list list list" where
  "tab5 a b c d e f = tab1 a (\<lambda>i. tab4 b c d e (f i))"

text \<open>
  Broadcasting of a binary operation along one axis: an axis of length one is
  stretched to the length of the other operand's axis. (Axes of different lengths,
  neither of them one, are an error in TensorFlow; every use below is behind a shape
  assertion that excludes them.)
\<close>

definition bcast :: "('a \<Rightarrow> 'b \<Rightarrow> 'c) \<Rightarrow> 'a list \<Rightarrow> 'b list \<Rightarrow> 'c list" where
  "bcast f xs ys =
     (if length xs = 1 then map (f (hd xs)) ys
      else if length ys = 1 then map (\<lambda>x. f x (hd ys)) xs
      else map2 f xs ys)"

definition bop1 :: "(real \<Rightarrow> real \<Rightarrow> real) \<Rightarrow> tensor1 \<Rightarrow> tensor1 \<Rightarrow> tensor1" where
  "bop1 f = bcast f"

definition bop2 :: "(real \<Rightarrow> real \<Rightarrow> real) \<Rightarrow> tensor2 \<Rightarrow> tensor2 \<Rightarrow> tensor2" where
  "bop2 f = bcast (bop1 f)"

definition bop3 :: "(real \<Rightarrow> real \<Rightarrow> real) \<Rightarrow> tensor3 \<Rightarrow> tensor3 \<Rightarrow> tensor3" where
  "bop3 f = bcast (bop2 f)"

definition bop4 :: "(real \<Rightarrow> real \<Rightarrow> real) \<Rightarrow> tensor4 \<Rightarrow> tensor4 \<Rightarrow> tensor4" where
  "bop4 f = bcast (bop3 f)"

text \<open>Elementwise unary operations (\<open>tf.square\<close>, \<open>tf.sqrt\<close>, \<open>1 + t\<close>, \<open>t + 1e-7\<close>).\<close>

definition ew1 :: "(real \<Rightarrow> real) \<Rightarrow> tensor1 \<Rightarrow> tensor1" where
  "ew1 f = map f"

definition ew3 :: "(real \<Rightarrow> real) \<Rightarrow> tensor3 \<Rightarrow> tensor3" where
  "ew3 f = map (map (map f))"

definition ew4 :: "(real \<Rightarrow> real) \<Rightarrow> tensor4 \<Rightarrow> tensor4" where
  "ew4 f = map (map (map (map f)))"

text \<open>\<open>tf.reduce_sum(t, -1, keep_dims=True)\<close> at ranks 1, 3 and 4.\<close>

definition reduce_sum_keep1 :: "tensor1 \<Rightarrow> tensor1" where
  "reduce_sum_keep1 v = [sum_list v]"

definition reduce_sum_keep3 :: "tensor3 \<Rightarrow> tensor3" where
  "reduce_sum_keep3 = map (map reduce_sum_keep1)"

definition reduce_sum_keep4 :: "tensor4 \<Rightarrow> tensor4" where
  "reduce_sum_keep4 = map (map (map reduce_sum_keep1))"

text \<open>\<open>tf.reduce_sum(t, axis=-1)\<close> of a rank-4 tensor.\<close>

definition reduce_sum_last4 :: "tensor4 \<Rightarrow> tensor3" where
  "reduce_sum_last4 = map (map (map sum_list))"

text \<open>
  \<open>tf.reduce_sum(t, axis=1)\<close> of a rank-4 tensor \<open>[B, I, J, D]\<close>: for each batch element
  the \<open>I\<close> matrices of shape \<open>[J, D]\<close> are added up entry by entry. (\<open>I\<close> is 1152 in
  every use.)
\<close>

definition sum_matrices :: "tensor3 \<Rightarrow> tensor2" where
  "sum_matrices ms = map (\<lambda>rows. map sum_list (transpose rows)) (transpose ms)"

definition reduce_sum_axis1 :: "tensor4 \<Rightarrow> tensor3" where
  "reduce_sum_axis1 = map sum_matrices"

text \<open>\<open>tf.nn.softmax(t, dim=2)\<close> of a rank-3 tensor: softmax along the last axis.\<close>

definition softmax1 :: "tensor1 \<Rightarrow> tensor1" where
  "softmax1 xs = map (\<lambda>x. exp x / sum_list (map exp xs)) xs"

definition tf_softmax3 :: "tensor3 \<Rightarrow> tensor3" where
  "tf_softmax3 = map (map softmax1)"

text \<open>\<open>tf.expand_dims(t, axis=-1)\<close> at rank 3 and \<open>tf.expand_dims(t, axis=1)\<close> at rank 3.\<close>

definition expand_dims_last3 :: "tensor3 \<Rightarrow> tensor4" where
  "expand_dims_last3 = map (map (map (\<lambda>x. [x])))"

definition expand_dims_axis1 :: "tensor3 \<Rightarrow> tensor4" where
  "expand_dims_axis1 = map (\<lambda>m. [m])"

text \<open>\<open>tf.tile(t, [1, 1, n, 1, 1])\<close> and \<open>tf.tile(t, [n, 1, 1, 1, 1])\<close> at rank 5.\<close>

definition tile_axis2 :: "nat \<Rightarrow> tensor5 \<Rightarrow> tensor5" where
  "tile_axis2 n = map (map (\<lambda>xs. concat (replicate n xs)))"

definition tile_axis0 :: "nat \<Rightarrow> tensor5 \<Rightarrow> tensor5" where
  "tile_axis0 n t = concat (replicate n t)"

text \<open>
  \<open>tf.matmul(a, b, transpose_a=True)\<close> at rank 5: the three leading axes are batch
  axes, the product is taken in the last two.
\<close>

definition mat_mul :: "tensor2 \<Rightarrow> tensor2 \<Rightarrow> tensor2" where
  "mat_mul a b = map (\<lambda>row. map (\<lambda>col. sum_list (map2 (*) row col)) (transpose b)) a"

definition matmul_transpose_a5 :: "tensor5 \<Rightarrow> tensor5 \<Rightarrow> tensor5" where
  "matmul_transpose_a5 = map2 (map2 (map2 (\<lambda>a b. mat_mul (transpose a) b)))"

text \<open>
  \<open>tf.reshape\<close>: the entries in row-major order, cut again into the new shape. A
  target shape with a different number of entries is a \<open>ValueError\<close>.
\<close>

function chop :: "nat \<Rightarrow> 'a list \<Rightarrow> 'a list list" where
  "chop n xs = (if n = 0 \<or> xs = [] then [] else take n xs # chop n (drop n xs))"
  by pat_completeness auto
termination
  by (relation "measure (\<lambda>(n, xs). length xs)") auto

declare chop.simps [simp del]

definition flatten4 :: "tensor4 \<Rightarrow> real list" where
  "flatten4 t = concat (concat (concat t))"

definition flatten5 :: "tensor5 \<Rightarrow> real list" where
  "flatten5 t = concat (concat (concat (concat t)))"

definition reshape4 :: "nat \<Rightarrow> nat \<Rightarrow> nat \<Rightarrow> nat \<Rightarrow> real list \<Rightarrow> py_error + tensor4" where
  "reshape4 a b c d flat =
     (if length flat \<noteq> a * b * c * d then Inl ValueError
      else Inr (chop b (chop c (chop d flat))))"

definition reshape5 ::
  "nat \<Rightarrow> nat \<Rightarrow> nat \<Rightarrow> nat \<Rightarrow> nat \<Rightarrow> real list \<Rightarrow> py_error + tensor5" where
  "reshape5 a b c d e flat =
     (if length flat \<noteq> a * b * c * d * e then Inl ValueError
      else Inr (chop b (chop c (chop d (chop e flat)))))"

text \<open>\<open>np.zeros([a, b, c])\<close>.\<close>

definition np_zeros3 :: "nat \<Rightarrow> nat \<Rightarrow> nat \<Rightarrow> tensor3" where
  "np_zeros3 a b c = replicate a (replicate b (replicate c 0))"

section \<open>squash\<close>

text \<open>
  The three lines of \<open>squash\<close>, at the ranks the layer calls it with (3 in the routing
  loop, 4 on the convolution's output) and at rank 1, a single pose vector.
\<close>

definition squash1 :: "tensor1 \<Rightarrow> tensor1" where
  "squash1 vector =
     (let vec_squared_norm = reduce_sum_keep1 (ew1 (\<lambda>x. x * x) vector);
          scalar_factor =
            bop1 (/) (bop1 (/) vec_squared_norm (ew1 (\<lambda>x. 1 + x) vec_squared_norm))
                     (ew1 sqrt (ew1 (\<lambda>x. x + 1 / 10000000) vec_squared_norm));
          vec_squashed = bop1 (*) scalar_factor vector
      in vec_squashed)"

definition squash3 :: "tensor3 \<Rightarrow> tensor3" where
  "squash3 vector =
     (let vec_squared_norm = reduce_sum_keep3 (ew3 (\<lambda>x. x * x) vector);
          scalar_factor =
            bop3 (/) (bop3 (/) vec_squared_norm (ew3 (\<lambda>x. 1 + x) vec_squared_norm))
                     (ew3 sqrt (ew3 (\<lambda>x. x + 1 / 10000000) vec_squared_norm));
          vec_squashed = bop3 (*) scalar_factor vector
      in vec_squashed)"

definition squash4 :: "tensor4 \<Rightarrow> tensor4" where
  "squash4 vector =
     (let vec_squared_norm = reduce_sum_keep4 (ew4 (\<lambda>x. x * x) vector);
          scalar_factor =
            bop4 (/) (bop4 (/) vec_squared_norm (ew4 (\<lambda>x. 1 + x) vec_squared_norm))
                     (ew4 sqrt (ew4 (\<lambda>x. x + 1 / 10000000) vec_squared_norm));
          vec_squashed = bop4 (*) scalar_factor vector
      in vec_squashed)"

section \<open>routing\<close>

text \<open>
  The configuration module is not part of the sources: the three settings the layer
  reads from \<open>cfg\<close> are parameters. \<open>batch_size\<close> and \<open>iter_routing\<close> are counts.
\<close>

record config =
  batch_size :: nat
  iter_routing :: nat
  stddev :: real

text \<open>
  The local variables of \<open>routing\<close>. \<open>W_tiled\<close> and \<open>input_tiled\<close> are \<open>W\<close> and \<open>input\<close>
  after lines 85 and 86 have rebound them. The variables first bound inside the loop
  are unbound (\<open>None\<close>) before the first iteration; \<open>c_IJ\<close> and \<open>s_J\<close> hold the value of
  their last binding in an iteration.
\<close>

record routing_frame =
  W_tiled :: tensor5
  input_tiled :: tensor5
  u_hat :: tensor4
  b_IJ :: tensor3
  c_IJ :: "tensor4 option"
  s_J :: "tensor3 option"
  v_J :: "tensor3 option"
  v_J_tiled :: "tensor4 option"
  u_produce_v :: "tensor3 option"

text \<open>
  Lines 79 to 92. \<open>Weight\<close> is the value of the variable \<open>'Weight'\<close> that
  \<open>tf.get_variable\<close> hands out with shape \<open>(1, 1152, 10, 8, 16)\<close>.
\<close>

definition routing_init :: "config \<Rightarrow> tensor5 \<Rightarrow> tensor5 \<Rightarrow> py_error + routing_frame" where
  "routing_init cfg Weight input =
     (let b0 = np_zeros3 (batch_size cfg) 1152 10;
          input1 = tile_axis2 10 input;
          W1 = tile_axis0 (batch_size cfg) Weight
      in if \<not> is_shape5 (batch_size cfg) 1152 10 8 1 input1 then Inl AssertionError
         else case reshape4 (batch_size cfg) 1152 10 16
                     (flatten5 (matmul_transpose_a5 W1 input1)) of
                Inl e \<Rightarrow> Inl e
              | Inr u \<Rightarrow>
                  if \<not> is_shape4 (batch_size cfg) 1152 10 16 u then Inl AssertionError
                  else Inr \<lparr>W_tiled = W1, input_tiled = input1, u_hat = u, b_IJ = b0,
                            c_IJ = None, s_J = None, v_J = None, v_J_tiled = None,
                            u_produce_v = None\<rparr>)"

text \<open>One pass through the body of the loop, lines 96 to 126.\<close>

definition routing_iter :: "config \<Rightarrow> routing_frame \<Rightarrow> py_error + routing_frame" where
  "routing_iter cfg fr =
     (let c1 = expand_dims_last3 (tf_softmax3 (b_IJ fr))
      in if \<not> is_shape4 (batch_size cfg) 1152 10 1 c1 then Inl AssertionError
         else let s1 = bop4 (*) c1 (u_hat fr)
              in if \<not> is_shape4 (batch_size cfg) 1152 10 16 s1 then Inl AssertionError
                 else let s2 = reduce_sum_axis1 s1
                      in if \<not> is_shape3 (batch_size cfg) 10 16 s2 then Inl AssertionError
                         else let v = squash3 s2
                              in if \<not> is_shape3 (batch_size cfg) 10 16 v
                                 then Inl AssertionError
                                 else let vt = expand_dims_axis1 v;
                                          upv = reduce_sum_last4 (bop4 (*) (u_hat fr) vt)
                                      in if \<not> is_shape3 (batch_size cfg) 1152 10 upv
                                         then Inl AssertionError
                                         else Inr (fr\<lparr>b_IJ := bop3 (+) (b_IJ fr) upv,
                                                      c_IJ := Some c1, s_J := Some s2,
                                                      v_J := Some v, v_J_tiled := Some vt,
                                                      u_produce_v := Some upv\<rparr>))"

text \<open>\<open>for r_iter in range(n)\<close>: the body, \<open>n\<close> times, stopping at the first exception.\<close>

fun routing_loop :: "config \<Rightarrow> nat \<Rightarrow> routing_frame \<Rightarrow> py_error + routing_frame" where
  "routing_loop cfg 0 fr = Inr fr"
| "routing_loop cfg (Suc n) fr =
     (case routing_iter cfg fr of Inl e \<Rightarrow> Inl e | Inr fr' \<Rightarrow> routing_loop cfg n fr')"

text \<open>Line 128: \<open>v_J\<close> is unbound when the loop body never ran.\<close>

definition routing_return :: "routing_frame \<Rightarrow> py_error + tensor3 \<times> tensor3" where
  "routing_return fr =
     (case v_J fr of None \<Rightarrow> Inl UnboundLocalError | Some v \<Rightarrow> Inr (v, b_IJ fr))"

definition routing :: "config \<Rightarrow> tensor5 \<Rightarrow> tensor5 \<Rightarrow> py_error + tensor3 \<times> tensor3" where
  "routing cfg Weight input =
     (case routing_init cfg Weight input of
        Inl e \<Rightarrow> Inl e
      | Inr fr0 \<Rightarrow>
          (case routing_loop cfg (iter_routing cfg) fr0 of
             Inl e \<Rightarrow> Inl e
           | Inr fr \<Rightarrow> routing_return fr))"



text \<open>
  Line 80 against the variable store. \<open>tf.get_variable\<close> looks the name up under the
  current variable scope. Where the store has no such variable it creates one, holding
  the value the initialiser gives it (\<open>initial\<close>), unless the scope demands reuse; where
  the store has one it hands that out if the scope allows reuse and the shape agrees,
  and raises \<open>ValueError\<close> if the scope does not reuse. \<open>routing_with_store\<close> is
  \<open>routing\<close> with its weight obtained that way; it returns the store it leaves behind.
\<close>

datatype reuse_mode = NoReuse | Reuse | AutoReuse






section \<open>CapsLayer\<close>

text \<open>
  The object: the four attributes \<open>__init__\<close> sets, and the four \<open>__call__\<close> assigns
  (\<open>None\<close> while unassigned). \<open>kernel_size\<close> and \<open>stride\<close> default to Python's \<open>None\<close>.
\<close>

record CapsLayer =
  num_outputs :: nat
  vec_len :: nat
  with_routing :: bool
  layer_type :: string
  self_kernel_size :: "nat option"
  self_stride :: "nat option"
  self_input :: "tensor5 option"
  self_b_IJ :: "tensor3 option"

definition CapsLayer_init :: "nat \<Rightarrow> nat \<Rightarrow> bool \<Rightarrow> string \<Rightarrow> CapsLayer" where
  "CapsLayer_init n l r t =
     \<lparr>num_outputs = n, vec_len = l, with_routing = r, layer_type = t,
      self_kernel_size = None, self_stride = None, self_input = None, self_b_IJ = None\<rparr>"

datatype py_result = PyNone | Capsules4 tensor4 | Capsules3 tensor3

text \<open>
  \<open>tf.contrib.layers.conv2d(input, num_filters, kernel_size, stride, padding="VALID")\<close>
  is a library layer with weights of its own: a parameter here.
\<close>

type_synonym conv2d_fn = "tensor4 \<Rightarrow> nat \<Rightarrow> nat option \<Rightarrow> nat option \<Rightarrow> py_error + tensor4"

text \<open>
  Lines 31 to 49. The result is the object after the block and, when the block
  returns or raises, how: \<open>None\<close> means control falls through to line 51.
\<close>

definition call_conv ::
  "config \<Rightarrow> conv2d_fn \<Rightarrow> CapsLayer \<Rightarrow> tensor4 \<Rightarrow> nat option \<Rightarrow> nat option
    \<Rightarrow> CapsLayer \<times> (py_error + py_result) option" where
  "call_conv cfg conv2d self input kernel_size stride =
     (if layer_type self = ''CONV'' then
        let self1 = self\<lparr>self_kernel_size := kernel_size, self_stride := stride\<rparr>
        in if \<not> with_routing self then
             if \<not> is_shape4 (batch_size cfg) 20 20 256 input
             then (self1, Some (Inl AssertionError))
             else case conv2d input (num_outputs self1 * vec_len self1)
                         (self_kernel_size self1) (self_stride self1) of
                    Inl e \<Rightarrow> (self1, Some (Inl e))
                  | Inr capsules \<Rightarrow>
                      if \<not> is_shape4 (batch_size cfg) 6 6 (8 * 32) capsules
                      then (self1, Some (Inl AssertionError))
                      else let capsules1 = squash4 capsules
                           in if \<not> is_shape4 (batch_size cfg) 6 6 (8 * 32) capsules1
                              then (self1, Some (Inl AssertionError))
                              else (self1, Some (Inr (Capsules4 capsules1)))
           else (self1, None)
      else (self, None))"

text \<open>Lines 51 to 63, and the end of the method (an implicit \<open>return None\<close>).\<close>

definition call_fc ::
  "config \<Rightarrow> tensor5 \<Rightarrow> CapsLayer \<Rightarrow> tensor4 \<Rightarrow> CapsLayer \<times> (py_error + py_result)" where
  "call_fc cfg Weight self input =
     (if layer_type self = ''FC'' then
        if with_routing self then
          case reshape5 (batch_size cfg) (6 * 6 * 32) 1 8 1 (flatten4 input) of
            Inl e \<Rightarrow> (self, Inl e)
          | Inr x \<Rightarrow>
              (let self1 = self\<lparr>self_input := Some x\<rparr>
               in case routing cfg Weight x of
                    Inl e \<Rightarrow> (self1, Inl e)
                  | Inr (capsules, b) \<Rightarrow>
                      if \<not> is_shape3 (batch_size cfg) 10 16 capsules
                      then (self1, Inl AssertionError)
                      else (self1\<lparr>self_b_IJ := Some b\<rparr>, Inr (Capsules3 capsules)))
        else (self, Inl UnboundLocalError)
      else (self, Inr PyNone))"

definition CapsLayer_call ::
  "config \<Rightarrow> tensor5 \<Rightarrow> conv2d_fn \<Rightarrow> CapsLayer \<Rightarrow> tensor4 \<Rightarrow> nat option \<Rightarrow> nat option
    \<Rightarrow> CapsLayer \<times> (py_error + py_result)" where
  "CapsLayer_call cfg Weight conv2d self input kernel_size stride =
     (case call_conv cfg conv2d self input kernel_size stride of
        (self1, Some r) \<Rightarrow> (self1, r)
      | (self1, None) \<Rightarrow> call_fc cfg Weight self1 input)"

section \<open>The routing algorithm as the specification words it\<close>

text \<open>
  Tensors are functions of their indices here. \<open>spec_squash D s\<close> is the squashed
  vector of the \<open>D\<close>-vector \<open>s\<close>; \<open>spec_votes\<close> is the vote tensor; \<open>spec_coupling\<close>,
  \<open>spec_weighted_sum\<close>, \<open>spec_v\<close>, \<open>spec_agreement\<close> and \<open>spec_b\<close> are steps a to e of
  one iteration, for 1152 lower capsules, 10 higher capsules and poses of length 16.
\<close>

definition spec_squash :: "nat \<Rightarrow> (nat \<Rightarrow> real) \<Rightarrow> nat \<Rightarrow> real" where
  "spec_squash D s d =
     (let q = (\<Sum>k<D. (s k)\<^sup>2) in (q / (1 + q)) * (s d / sqrt (q + 1 / 10000000)))"

definition spec_votes :: "tensor5 \<Rightarrow> tensor5 \<Rightarrow> nat \<Rightarrow> nat \<Rightarrow> nat \<Rightarrow> nat \<Rightarrow> real" where
  "spec_votes Wt U n i j d = (\<Sum>k<8. Wt ! 0 ! i ! j ! k ! d * U ! n ! i ! 0 ! k ! 0)"

definition spec_coupling :: "(nat \<Rightarrow> nat \<Rightarrow> nat \<Rightarrow> real) \<Rightarrow> nat \<Rightarrow> nat \<Rightarrow> nat \<Rightarrow> real" where
  "spec_coupling b n i j = exp (b n i j) / (\<Sum>k<10. exp (b n i k))"

definition spec_weighted_sum ::
  "(nat \<Rightarrow> nat \<Rightarrow> nat \<Rightarrow> real) \<Rightarrow> (nat \<Rightarrow> nat \<Rightarrow> nat \<Rightarrow> nat \<Rightarrow> real) \<Rightarrow> nat \<Rightarrow> nat \<Rightarrow> nat \<Rightarrow> real" where
  "spec_weighted_sum c u n j d = (\<Sum>i<1152. c n i j * u n i j d)"

definition spec_agreement ::
  "(nat \<Rightarrow> nat \<Rightarrow> nat \<Rightarrow> nat \<Rightarrow> real) \<Rightarrow> (nat \<Rightarrow> nat \<Rightarrow> nat \<Rightarrow> real) \<Rightarrow> nat \<Rightarrow> nat \<Rightarrow> nat \<Rightarrow> real" where
  "spec_agreement u v n i j = (\<Sum>d<16. u n i j d * v n j d)"

definition spec_v :: "(nat \<Rightarrow> nat \<Rightarrow> nat \<Rightarrow> nat \<Rightarrow> real) \<Rightarrow> (nat \<Rightarrow> nat \<Rightarrow> nat \<Rightarrow> real) \<Rightarrow> nat \<Rightarrow> nat \<Rightarrow> nat \<Rightarrow> real" where
  "spec_v u b n j = spec_squash 16 (spec_weighted_sum (spec_coupling b) u n j)"

definition spec_b :: "(nat \<Rightarrow> nat \<Rightarrow> nat \<Rightarrow> nat \<Rightarrow> real) \<Rightarrow> (nat \<Rightarrow> nat \<Rightarrow> nat \<Rightarrow> real) \<Rightarrow> nat \<Rightarrow> nat \<Rightarrow> nat \<Rightarrow> real" where
  "spec_b u b n i j = b n i j + spec_agreement u (spec_v u b) n i j"

definition spec_iteration ::
  "(nat \<Rightarrow> nat \<Rightarrow> nat \<Rightarrow> nat \<Rightarrow> real)
    \<Rightarrow> (nat \<Rightarrow> nat \<Rightarrow> nat \<Rightarrow> real) \<times> (nat \<Rightarrow> nat \<Rightarrow> nat \<Rightarrow> real)
    \<Rightarrow> (nat \<Rightarrow> nat \<Rightarrow> nat \<Rightarrow> real) \<times> (nat \<Rightarrow> nat \<Rightarrow> nat \<Rightarrow> real)" where
  "spec_iteration u vb = (spec_v u (snd vb), spec_b u (snd vb))"

definition spec_routing ::
  "nat \<Rightarrow> (nat \<Rightarrow> nat \<Rightarrow> nat \<Rightarrow> nat \<Rightarrow> real)
    \<Rightarrow> (nat \<Rightarrow> nat \<Rightarrow> nat \<Rightarrow> real) \<times> (nat \<Rightarrow> nat \<Rightarrow> nat \<Rightarrow> real)" where
  "spec_routing R u = (spec_iteration u ^^ R) (\<lambda>_ _ _. 0, \<lambda>_ _ _. 0)"

text \<open>
  The specification's squash formula on a single vector (with the constant under the
  root as a parameter: \<open>1e-7\<close> in the program, \<open>0\<close> for the squash without it), and
  the scalar factor \<open>squash\<close> multiplies a vector of squared length \<open>s\<close> with.
\<close>

definition spec_squash_formula :: "real \<Rightarrow> real list \<Rightarrow> real list" where
  "spec_squash_formula eps v =
     (let s = (\<Sum>x\<leftarrow>v. x\<^sup>2) in map (\<lambda>x. (s / (1 + s)) * (x / sqrt (s + eps))) v)"

definition squash_factor :: "real \<Rightarrow> real" where
  "squash_factor s = s / (1 + s) / sqrt (s + 1 / 10000000)"

text \<open>
  The primary capsule layer as the specification words it: the channels of every
  position are cut into capsules of the pose length, and each capsule is squashed on
  its own.
\<close>

definition spec_primary_caps :: "nat \<Rightarrow> tensor4 \<Rightarrow> tensor5" where
  "spec_primary_caps l = map (map (map (\<lambda>channels. map squash1 (chop l channels))))"

text \<open>
  The frame one pass through the loop body leaves behind, when the votes are \<open>u\<close> and
  the logits before the pass are \<open>b\<close>, in the specification's terms.
\<close>

definition frame_after ::
  "nat \<Rightarrow> (nat \<Rightarrow> nat \<Rightarrow> nat \<Rightarrow> nat \<Rightarrow> real) \<Rightarrow> (nat \<Rightarrow> nat \<Rightarrow> nat \<Rightarrow> real)
    \<Rightarrow> routing_frame \<Rightarrow> routing_frame" where
  "frame_after B u b fr =
     fr\<lparr>b_IJ := tab3 B 1152 10 (spec_b u b),
        c_IJ := Some (tab4 B 1152 10 1 (\<lambda>n i j _. spec_coupling b n i j)),
        s_J := Some (tab3 B 10 16 (spec_weighted_sum (spec_coupling b) u)),
        v_J := Some (tab3 B 10 16 (spec_v u b)),
        v_J_tiled := Some (tab4 B 1 10 16 (\<lambda>n _. spec_v u b n)),
        u_produce_v := Some (tab3 B 1152 10 (spec_agreement u (spec_v u b)))\<rparr>"

section \<open>Tabulated tensors\<close>

lemma length_tab1 [simp]: "length (tab1 n f) = n"
  by (simp add: tab1_def)

lemma nth_tab1 [simp]: "i < n \<Longrightarrow> tab1 n f ! i = f i"
  by (simp add: tab1_def)

lemma tab1_cong [cong]: "n = m \<Longrightarrow> (\<And>i. i < m \<Longrightarrow> f i = g i) \<Longrightarrow> tab1 n f = tab1 m g"
  by (simp add: tab1_def)

lemma map_tab1 [simp]: "map g (tab1 n f) = tab1 n (\<lambda>i. g (f i))"
  by (simp add: tab1_def)

lemma tab1_nth: "length xs = n \<Longrightarrow> tab1 n (\<lambda>i. xs ! i) = xs"
  by (auto simp: tab1_def map_nth)

lemma list_all_tab1 [simp]: "list_all P (tab1 n f) \<longleftrightarrow> (\<forall>i<n. P (f i))"
  by (auto simp: tab1_def list_all_iff)

lemma sum_list_tab1 [simp]: "sum_list (tab1 n f) = (\<Sum>i<n. f i)"
  by (simp add: tab1_def interv_sum_list_conv_sum_set_nat atLeast0LessThan)

lemma replicate_tab1: "replicate n x = tab1 n (\<lambda>_. x)"
  by (simp add: tab1_def map_replicate_const)

lemma tab1_Suc0 [simp]: "tab1 (Suc 0) f = [f 0]"
  by (simp add: tab1_def)

lemma bcast_tab1 [simp]: "bcast g (tab1 n f) (tab1 n h) = tab1 n (\<lambda>i. g (f i) (h i))"
  by (cases "n = 1") (auto simp: bcast_def tab1_def zip_map_map zip_same_conv_map)

lemma bcast_tab1_left [simp]: "bcast g (tab1 1 f) (tab1 n h) = tab1 n (\<lambda>i. g (f 0) (h i))"
  by (auto simp: bcast_def tab1_def)

lemma bcast_tab1_right [simp]: "bcast g (tab1 n f) (tab1 1 h) = tab1 n (\<lambda>i. g (f i) (h 0))"
  by (cases "n = 1") (auto simp: bcast_def tab1_def)

lemma bcast_single_left [simp]: "bcast g [x] (tab1 n h) = tab1 n (\<lambda>i. g x (h i))"
  by (auto simp: bcast_def tab1_def)

lemma bcast_single_right [simp]: "bcast g (tab1 n f) [y] = tab1 n (\<lambda>i. g (f i) y)"
  by (cases "n = 1") (auto simp: bcast_def tab1_def)

lemma bcast_single_single [simp]: "bcast g [x] [y] = [g x y]"
  by (simp add: bcast_def)

lemma transpose_tab1:
  assumes "0 < n"
  shows "transpose (tab1 n (\<lambda>i. tab1 m (f i))) = tab1 m (\<lambda>j. tab1 n (\<lambda>i. f i j))"
proof -
  have "transpose (tab1 n (\<lambda>i. tab1 m (f i))) =
        map (\<lambda>j. map (\<lambda>i. tab1 n (\<lambda>i. tab1 m (f i)) ! i ! j) [0..<length (tab1 n (\<lambda>i. tab1 m (f i)))]) [0..<m]"
  proof (rule transpose_rectangle)
    assume "tab1 n (\<lambda>i. tab1 m (f i)) = []"
    then have "length (tab1 n (\<lambda>i. tab1 m (f i))) = 0" by simp
    with assms show "m = 0" by simp
  qed simp
  also have "\<dots> = tab1 m (\<lambda>j. tab1 n (\<lambda>i. f i j))"
    by (simp add: tab1_def)
  finally show ?thesis .
qed


lemma is_shape5_tab:
  "is_shape5 a b c d e t \<Longrightarrow> t = tab5 a b c d e (\<lambda>i j k l m. t ! i ! j ! k ! l ! m)"
  unfolding is_shape5_def is_shape4_def is_shape3_def is_shape2_def is_shape1_def
    tab5_def tab4_def tab3_def tab2_def
  by (auto simp: list_all_length tab1_nth intro!: nth_equalityI)

lemma is_shape3_tab3 [simp]: "is_shape3 a b c (tab3 a b c f)"
  by (simp add: is_shape3_def is_shape2_def is_shape1_def tab3_def tab2_def)

lemma is_shape4_tab4 [simp]: "is_shape4 a b c d (tab4 a b c d f)"
  by (simp add: is_shape4_def is_shape3_def is_shape2_def is_shape1_def tab4_def tab3_def tab2_def)

lemma is_shape5_tab5 [simp]: "is_shape5 a b c d e (tab5 a b c d e f)"
  by (simp add: is_shape5_def is_shape4_def is_shape3_def is_shape2_def is_shape1_def
      tab5_def tab4_def tab3_def tab2_def)

section \<open>The operations on tabulated tensors\<close>

lemma squash3_tab: "squash3 (tab3 a b D f) = tab3 a b D (\<lambda>i j. spec_squash D (f i j))"
  by (simp add: squash3_def reduce_sum_keep3_def reduce_sum_keep1_def ew3_def bop3_def bop2_def bop1_def
      spec_squash_def tab3_def tab2_def power2_eq_square Let_def)

lemma softmax3_tab:
  "tf_softmax3 (tab3 a b c f) = tab3 a b c (\<lambda>n i j. exp (f n i j) / (\<Sum>k<c. exp (f n i k)))"
  by (simp add: tf_softmax3_def softmax1_def tab3_def tab2_def)

lemma expand_dims_last3_tab:
  "expand_dims_last3 (tab3 a b c f) = tab4 a b c 1 (\<lambda>n i j _. f n i j)"
  by (simp add: expand_dims_last3_def tab4_def tab3_def tab2_def)

lemma expand_dims_axis1_tab:
  "expand_dims_axis1 (tab3 a b c f) = tab4 a 1 b c (\<lambda>n _. f n)"
  by (simp add: expand_dims_axis1_def tab4_def tab3_def tab2_def)

lemma bop4_mul_last_tab:
  "bop4 g (tab4 a b c 1 f) (tab4 a b c d h) = tab4 a b c d (\<lambda>n i j k. g (f n i j 0) (h n i j k))"
  by (simp add: bop4_def bop3_def bop2_def bop1_def tab4_def tab3_def tab2_def)

lemma bop4_mul_axis1_tab:
  "bop4 g (tab4 a b c d f) (tab4 a 1 c d h) = tab4 a b c d (\<lambda>n i j k. g (f n i j k) (h n 0 j k))"
  by (simp add: bop4_def bop3_def bop2_def bop1_def tab4_def tab3_def tab2_def)

lemma bop3_tab:
  "bop3 g (tab3 a b c f) (tab3 a b c h) = tab3 a b c (\<lambda>n i j. g (f n i j) (h n i j))"
  by (simp add: bop3_def bop2_def bop1_def tab3_def tab2_def)

lemma reduce_sum_last4_tab:
  "reduce_sum_last4 (tab4 a b c d f) = tab3 a b c (\<lambda>n i j. \<Sum>k<d. f n i j k)"
  by (simp add: reduce_sum_last4_def tab4_def tab3_def tab2_def)

lemma sum_matrices_tab:
  "0 < b \<Longrightarrow> sum_matrices (tab3 b c d f) = tab2 c d (\<lambda>j k. \<Sum>i<b. f i j k)"
  by (simp add: sum_matrices_def tab3_def tab2_def transpose_tab1)

lemma reduce_sum_axis1_tab:
  "0 < b \<Longrightarrow> reduce_sum_axis1 (tab4 a b c d f) = tab3 a c d (\<lambda>n j k. \<Sum>i<b. f n i j k)"
  by (simp add: reduce_sum_axis1_def tab4_def sum_matrices_tab tab3_def[of a])

lemma np_zeros3_tab: "np_zeros3 a b c = tab3 a b c (\<lambda>_ _ _. 0)"
  by (simp add: np_zeros3_def replicate_tab1 tab3_def tab2_def)

lemma concat_map_concat: "concat (map concat xss) = concat (concat xss)"
  by (induction xss) auto

lemma concat_tab1_single: "concat (tab1 n (\<lambda>i. [f i])) = tab1 n f"
  by (simp add: tab1_def)

lemma map2_tab1: "map2 g (tab1 n f) (tab1 n h) = tab1 n (\<lambda>i. g (f i) (h i))"
  by (simp add: tab1_def zip_map_map zip_same_conv_map)

lemma chop_Nil: "chop n [] = []"
  by (simp add: chop.simps)

lemma chop_append:
  "0 < n \<Longrightarrow> length xs = n \<Longrightarrow> chop n (xs @ ys) = xs # chop n ys"
  by (subst chop.simps) auto

lemma chop_concat:
  "0 < n \<Longrightarrow> \<forall>xs\<in>set xss. length xs = n \<Longrightarrow> chop n (concat xss) = xss"
  by (induction xss) (simp_all add: chop_Nil chop_append)

lemma length_concat_uniform:
  "\<forall>xs\<in>set xss. length xs = n \<Longrightarrow> length (concat xss) = length xss * n"
  by (induction xss) simp_all

lemma reshape4_flatten4:
  assumes "is_shape4 a b c d t" and "0 < b" and "0 < c" and "0 < d"
  shows "reshape4 a b c d (flatten4 t) = Inr t"
proof -
  from assms(1) have la: "length t = a"
    and lb: "\<forall>x\<in>set t. length x = b"
    and lc: "\<forall>y\<in>set (concat t). length y = c"
    and ld: "\<forall>z\<in>set (concat (concat t)). length z = d"
    by (auto simp: is_shape4_def is_shape3_def is_shape2_def is_shape1_def list_all_iff)
  have "length (flatten4 t) = a * b * c * d"
    by (simp add: flatten4_def length_concat_uniform [OF ld] length_concat_uniform [OF lc]
        length_concat_uniform [OF lb] la)
  moreover have "chop b (chop c (chop d (flatten4 t))) = t"
    by (simp add: flatten4_def chop_concat [OF assms(4) ld] chop_concat [OF assms(3) lc]
        chop_concat [OF assms(2) lb])
  ultimately show ?thesis
    by (simp add: reshape4_def)
qed

lemma flatten5_drop_last:
  "flatten5 t = flatten4 (map (map (map concat)) t)"
  by (simp add: flatten5_def flatten4_def map_concat [symmetric] concat_map_concat)

lemma mat_mul_transpose_tab:
  "0 < m \<Longrightarrow> mat_mul (transpose (tab2 m p w)) (tab2 m q x) =
     tab2 p q (\<lambda>d e. \<Sum>k<m. w k d * x k e)"
  by (simp add: mat_mul_def tab2_def transpose_tab1 map2_tab1)

lemma tile_axis2_tab:
  "tile_axis2 n (tab5 a b 1 d e f) = tab5 a b n d e (\<lambda>m i j. f m i 0)"
  by (simp add: tile_axis2_def tab5_def tab4_def tab3_def)
     (simp add: replicate_tab1)

lemma tile_axis0_tab:
  "tile_axis0 n (tab5 1 b c d e f) = tab5 n b c d e (\<lambda>m. f 0)"
  by (simp add: tile_axis0_def tab5_def)
     (simp add: replicate_tab1)

lemma matmul_transpose_a5_tab:
  "0 < m \<Longrightarrow> matmul_transpose_a5 (tab5 a b c m p w) (tab5 a b c m q x) =
     tab5 a b c p q (\<lambda>n i j d e. \<Sum>k<m. w n i j k d * x n i j k e)"
  by (simp add: matmul_transpose_a5_def tab5_def tab4_def tab3_def map2_tab1
      mat_mul_transpose_tab)

lemma drop_last_tab:
  "map (map (map concat)) (tab5 a b c d 1 f) = tab4 a b c d (\<lambda>n i j k. f n i j k 0)"
  by (simp add: tab5_def tab4_def tab3_def tab2_def concat_tab1_single)

section \<open>One iteration and the votes, entry by entry\<close>

lemma u_hat_tab:
  assumes "is_shape5 1 1152 10 8 16 Wt" and "is_shape5 B 1152 1 8 1 U"
  shows "reshape4 B 1152 10 16
           (flatten5 (matmul_transpose_a5 (tile_axis0 B Wt) (tile_axis2 10 U))) =
         Inr (tab4 B 1152 10 16 (spec_votes Wt U))"
    and "is_shape5 B 1152 10 8 1 (tile_axis2 10 U)"
proof -
  let ?w = "\<lambda>i j k l m. Wt ! i ! j ! k ! l ! m"
  let ?x = "\<lambda>i j k l m. U ! i ! j ! k ! l ! m"
  have W: "Wt = tab5 1 1152 10 8 16 ?w" by (rule is_shape5_tab [OF assms(1)])
  have U: "U = tab5 B 1152 1 8 1 ?x" by (rule is_shape5_tab [OF assms(2)])
  have tU: "tile_axis2 10 U = tab5 B 1152 10 8 1 (\<lambda>m i j. ?x m i 0)"
    by (subst U) (simp only: tile_axis2_tab)
  have tW: "tile_axis0 B Wt = tab5 B 1152 10 8 16 (\<lambda>m. ?w 0)"
    by (subst W) (simp only: tile_axis0_tab)
  show "is_shape5 B 1152 10 8 1 (tile_axis2 10 U)"
    by (simp only: tU is_shape5_tab5)
  have "flatten5 (matmul_transpose_a5 (tile_axis0 B Wt) (tile_axis2 10 U)) =
        flatten4 (tab4 B 1152 10 16 (spec_votes Wt U))"
    by (simp only: tU tW flatten5_drop_last matmul_transpose_a5_tab [of 8, simplified]
        drop_last_tab spec_votes_def [abs_def])
  then show "reshape4 B 1152 10 16
           (flatten5 (matmul_transpose_a5 (tile_axis0 B Wt) (tile_axis2 10 U))) =
         Inr (tab4 B 1152 10 16 (spec_votes Wt U))"
    by (simp add: reshape4_flatten4)
qed

lemma routing_iter_tab:
  assumes "u_hat fr = tab4 B 1152 10 16 u" and "b_IJ fr = tab3 B 1152 10 b"
    and "batch_size cfg = B"
  shows "routing_iter cfg fr =
     Inr (fr\<lparr>b_IJ := tab3 B 1152 10 (spec_b u b),
             c_IJ := Some (tab4 B 1152 10 1 (\<lambda>n i j _. spec_coupling b n i j)),
             s_J := Some (tab3 B 10 16 (spec_weighted_sum (spec_coupling b) u)),
             v_J := Some (tab3 B 10 16 (spec_v u b)),
             v_J_tiled := Some (tab4 B 1 10 16 (\<lambda>n _. spec_v u b n)),
             u_produce_v := Some (tab3 B 1152 10 (spec_agreement u (spec_v u b)))\<rparr>)"
proof -
  have c: "expand_dims_last3 (tf_softmax3 (b_IJ fr)) = tab4 B 1152 10 1 (\<lambda>n i j _. spec_coupling b n i j)"
    by (simp only: assms softmax3_tab expand_dims_last3_tab spec_coupling_def)
  have s1: "bop4 (*) (tab4 B 1152 10 1 (\<lambda>n i j _. spec_coupling b n i j)) (u_hat fr)
      = tab4 B 1152 10 16 (\<lambda>n i j d. spec_coupling b n i j * u n i j d)"
    by (simp only: assms bop4_mul_last_tab)
  have s2: "reduce_sum_axis1 (tab4 B 1152 10 16 (\<lambda>n i j d. spec_coupling b n i j * u n i j d))
      = tab3 B 10 16 (spec_weighted_sum (spec_coupling b) u)"
    by (simp add: reduce_sum_axis1_tab spec_weighted_sum_def [abs_def])
  have v: "squash3 (tab3 B 10 16 (spec_weighted_sum (spec_coupling b) u)) = tab3 B 10 16 (spec_v u b)"
    by (simp add: squash3_tab spec_v_def [abs_def])
  have vt: "expand_dims_axis1 (tab3 B 10 16 (spec_v u b)) = tab4 B 1 10 16 (\<lambda>n _. spec_v u b n)"
    by (simp only: expand_dims_axis1_tab)
  have upv: "reduce_sum_last4 (bop4 (*) (u_hat fr) (tab4 B 1 10 16 (\<lambda>n _. spec_v u b n)))
      = tab3 B 1152 10 (spec_agreement u (spec_v u b))"
    by (simp only: assms bop4_mul_axis1_tab reduce_sum_last4_tab spec_agreement_def [abs_def])
  have b': "bop3 (+) (b_IJ fr) (tab3 B 1152 10 (spec_agreement u (spec_v u b)))
      = tab3 B 1152 10 (spec_b u b)"
    by (simp add: assms bop3_tab spec_b_def [abs_def])
  show ?thesis
    unfolding routing_iter_def Let_def c s1 s2 v vt upv b'
    by (simp add: assms(3))
qed

section \<open>The loop, entry by entry\<close>

lemma routing_iter_frame_after:
  assumes "u_hat fr = tab4 B 1152 10 16 u" and "b_IJ fr = tab3 B 1152 10 b"
    and "batch_size cfg = B"
  shows "routing_iter cfg fr = Inr (frame_after B u b fr)"
  unfolding frame_after_def by (rule routing_iter_tab [OF assms])

lemma frame_after_fields [simp]:
  "u_hat (frame_after B u b fr) = u_hat fr"
  "W_tiled (frame_after B u b fr) = W_tiled fr"
  "input_tiled (frame_after B u b fr) = input_tiled fr"
  "b_IJ (frame_after B u b fr) = tab3 B 1152 10 (spec_b u b)"
  "v_J (frame_after B u b fr) = Some (tab3 B 10 16 (spec_v u b))"
  "c_IJ (frame_after B u b fr) = Some (tab4 B 1152 10 1 (\<lambda>n i j _. spec_coupling b n i j))"
  by (simp_all add: frame_after_def)

lemma frame_after_twice [simp]:
  "frame_after B u b' (frame_after B u b fr) = frame_after B u b' fr"
  by (simp add: frame_after_def)

lemma routing_loop_frame_after:
  assumes "u_hat fr = tab4 B 1152 10 16 u" and "b_IJ fr = tab3 B 1152 10 b"
    and "batch_size cfg = B"
  shows "routing_loop cfg (Suc n) fr = Inr (frame_after B u ((spec_b u ^^ n) b) fr)"
  using assms
proof (induction n arbitrary: fr b)
  case 0
  then show ?case by (simp add: routing_iter_frame_after)
next
  case (Suc n)
  have step: "routing_iter cfg fr = Inr (frame_after B u b fr)"
    by (rule routing_iter_frame_after) (use Suc.prems in simp_all)
  have "routing_loop cfg (Suc (Suc n)) fr = routing_loop cfg (Suc n) (frame_after B u b fr)"
    by (subst routing_loop.simps(2)) (simp only: step sum.case)
  also have "\<dots> = Inr (frame_after B u ((spec_b u ^^ n) (spec_b u b)) (frame_after B u b fr))"
    by (rule Suc.IH) (use Suc.prems in simp_all)
  finally show ?case
    by (simp add: funpow_swap1)
qed

lemma spec_iteration_funpow:
  "snd ((spec_iteration u ^^ n) vb) = (spec_b u ^^ n) (snd vb)"
  by (induction n) (simp_all add: spec_iteration_def)

lemma spec_routing_Suc:
  "spec_routing (Suc n) u =
     (spec_v u ((spec_b u ^^ n) (\<lambda>_ _ _. 0)), spec_b u ((spec_b u ^^ n) (\<lambda>_ _ _. 0)))"
  by (simp add: spec_routing_def spec_iteration_def [of u "(spec_iteration u ^^ n) x" for x]
      spec_iteration_funpow)

lemma routing_init_frame:
  assumes "is_shape5 1 1152 10 8 16 Wt" and "is_shape5 (batch_size cfg) 1152 1 8 1 U"
  shows "routing_init cfg Wt U =
     Inr \<lparr>W_tiled = tile_axis0 (batch_size cfg) Wt, input_tiled = tile_axis2 10 U,
          u_hat = tab4 (batch_size cfg) 1152 10 16 (spec_votes Wt U),
          b_IJ = tab3 (batch_size cfg) 1152 10 (\<lambda>_ _ _. 0),
          c_IJ = None, s_J = None, v_J = None, v_J_tiled = None, u_produce_v = None\<rparr>"
  unfolding routing_init_def Let_def u_hat_tab(1) [OF assms] np_zeros3_tab
  using u_hat_tab(2) [OF assms] by simp

lemma routing_result:
  assumes "is_shape5 1 1152 10 8 16 Wt" and "is_shape5 (batch_size cfg) 1152 1 8 1 U"
    and "iter_routing cfg = Suc n"
    and "tab4 (batch_size cfg) 1152 10 16 (spec_votes Wt U) = tab4 (batch_size cfg) 1152 10 16 u"
  shows "routing cfg Wt U =
     Inr (tab3 (batch_size cfg) 10 16 (spec_v u ((spec_b u ^^ n) (\<lambda>_ _ _. 0))),
          tab3 (batch_size cfg) 1152 10 (spec_b u ((spec_b u ^^ n) (\<lambda>_ _ _. 0))))"
proof -
  let ?fr0 = "\<lparr>W_tiled = tile_axis0 (batch_size cfg) Wt, input_tiled = tile_axis2 10 U,
          u_hat = tab4 (batch_size cfg) 1152 10 16 (spec_votes Wt U),
          b_IJ = tab3 (batch_size cfg) 1152 10 (\<lambda>_ _ _. 0),
          c_IJ = None, s_J = None, v_J = None, v_J_tiled = None, u_produce_v = None\<rparr>"
  have init: "routing_init cfg Wt U = Inr ?fr0"
    by (rule routing_init_frame [OF assms(1,2)])
  have loop: "routing_loop cfg (Suc n) ?fr0 =
      Inr (frame_after (batch_size cfg) u ((spec_b u ^^ n) (\<lambda>_ _ _. 0)) ?fr0)"
    by (rule routing_loop_frame_after) (simp_all add: assms(4))
  show ?thesis
    unfolding routing_def init assms(3) sum.case loop routing_return_def
    by simp
qed

lemma nth_tab4:
  "i < a \<Longrightarrow> j < b \<Longrightarrow> k < c \<Longrightarrow> l < d \<Longrightarrow> tab4 a b c d f ! i ! j ! k ! l = f i j k l"
  by (simp add: tab4_def tab3_def tab2_def)

lemma is_shape5_replicate:
  "is_shape5 a b c d e (replicate a (replicate b (replicate c (replicate d (replicate e x)))))"
  by (simp add: is_shape5_def is_shape4_def is_shape3_def is_shape2_def is_shape1_def
      list_all_iff)

lemma tab3_const: "tab3 a b c (\<lambda>_ _ _. x) = replicate a (replicate b (replicate c x))"
  by (simp add: tab3_def tab2_def replicate_tab1)

lemma spec_squash_zero: "spec_squash D (\<lambda>_. 0) d = 0"
  by (simp add: spec_squash_def)

lemma spec_v_zero_votes: "spec_v (\<lambda>_ _ _ _. 0) b = (\<lambda>_ _ _. 0)"
  by (intro ext) (simp add: spec_v_def spec_weighted_sum_def [abs_def] spec_squash_zero)






lemma routing_iter_frame:
  assumes "routing_iter cfg fr = Inr fr'"
  shows "fr' = fr\<lparr>b_IJ := b_IJ fr', c_IJ := c_IJ fr', s_J := s_J fr', v_J := v_J fr',
                  v_J_tiled := v_J_tiled fr', u_produce_v := u_produce_v fr'\<rparr>"
  using assms unfolding routing_iter_def Let_def
  by (auto split: if_splits)

lemma votes_zero_input:
  "tab4 B 1152 10 16
     (spec_votes Wt (replicate B (replicate 1152 (replicate 1 (replicate 8 (replicate 1 0)))))) =
   tab4 B 1152 10 16 (\<lambda>_ _ _ _. 0)"
  by (simp add: tab4_def tab3_def tab2_def spec_votes_def)

section \<open>squash on a single vector\<close>

lemma bcast_map_same: "bcast f (map g xs) (map h xs) = map (\<lambda>x. f (g x) (h x)) xs"
proof (cases "length xs = 1")
  case True
  then obtain x where "xs = [x]"
    by (cases xs) auto
  then show ?thesis by (simp add: bcast_def)
next
  case False
  then show ?thesis
    by (simp add: bcast_def zip_map_map zip_same_conv_map)
qed

lemma bcast_single: "bcast f [x] ys = map (f x) ys"
  by (simp add: bcast_def)

lemma squash1_formula: "squash1 v = spec_squash_formula (1 / 10000000) v"
  by (simp add: squash1_def spec_squash_formula_def reduce_sum_keep1_def ew1_def bop1_def
      bcast_single power2_eq_square Let_def)

lemma bcast_map_left: "bcast f (map g xs) xs = map (\<lambda>x. f (g x) x) xs"
  using bcast_map_same [of f g xs "\<lambda>x. x"] by simp

lemma squash3_map: "squash3 t = map (map squash1) t"
  by (simp add: squash3_def squash1_def Let_def reduce_sum_keep3_def ew3_def bop3_def
      bop2_def bop1_def ew1_def bcast_map_same bcast_map_left)

lemma squash4_map: "squash4 t = map (map (map squash1)) t"
  by (simp add: squash4_def squash1_def Let_def reduce_sum_keep4_def ew4_def bop4_def bop3_def
      bop2_def bop1_def ew1_def bcast_map_same bcast_map_left)

lemma sum_squares_nonneg: "0 \<le> (\<Sum>x\<leftarrow>v. x\<^sup>2)" for v :: "real list"
  by (rule sum_list_nonneg) auto

lemma sq_le_sum_squares: "x \<in> set v \<Longrightarrow> x\<^sup>2 \<le> (\<Sum>y\<leftarrow>v. y\<^sup>2)" for v :: "real list"
proof (induction v)
  case Nil
  then show ?case by simp
next
  case (Cons a v)
  show ?case
  proof (cases "x = a")
    case True
    then show ?thesis using sum_squares_nonneg [of v] by simp
  next
    case False
    with Cons have "x\<^sup>2 \<le> (\<Sum>y\<leftarrow>v. y\<^sup>2)" by simp
    then show ?thesis by (simp add: add_increasing)
  qed
qed

lemma sum_squares_pos:
  fixes v :: "real list"
  assumes "\<exists>x\<in>set v. x \<noteq> 0"
  shows "0 < (\<Sum>x\<leftarrow>v. x\<^sup>2)"
proof -
  from assms obtain x where "x \<in> set v" and "x \<noteq> 0" by blast
  then have "0 < x\<^sup>2" and "x\<^sup>2 \<le> (\<Sum>y\<leftarrow>v. y\<^sup>2)"
    by (auto intro: sq_le_sum_squares)
  then show ?thesis by linarith
qed

lemma squash1_scale: "squash1 v = map ((*) (squash_factor (\<Sum>x\<leftarrow>v. x\<^sup>2))) v"
  by (simp add: squash1_formula spec_squash_formula_def squash_factor_def Let_def)

lemma root_ratio:
  fixes n e :: real
  assumes "0 < n" and "0 < e"
  shows "0 < n / sqrt (n\<^sup>2 + e)" and "n / sqrt (n\<^sup>2 + e) < 1"
    and "n\<^sup>2 / (n\<^sup>2 + e) \<le> n / sqrt (n\<^sup>2 + e)"
proof -
  let ?t = "sqrt (n\<^sup>2 + e)"
  have "sqrt (n\<^sup>2) < ?t"
    using assms(2) by (intro real_sqrt_less_mono) simp
  with assms(1) have lt: "n < ?t" by simp
  with assms(1) have t: "0 < ?t" by linarith
  show pos: "0 < n / ?t"
    using assms(1) t by (rule divide_pos_pos)
  show less: "n / ?t < 1"
    using lt t by (simp add: divide_less_eq)
  have "?t * ?t = n\<^sup>2 + e"
    using assms by simp
  then have "n\<^sup>2 / (n\<^sup>2 + e) = (n / ?t) * (n / ?t)"
    by (simp add: power2_eq_square)
  also have "\<dots> \<le> (n / ?t) * 1"
    using pos less by (intro mult_left_mono) simp_all
  finally show "n\<^sup>2 / (n\<^sup>2 + e) \<le> n / ?t" by simp
qed

lemma squash_epsilon_bound:
  fixes s x e :: real
  assumes s: "0 < s" and e: "0 < e" and x: "x\<^sup>2 \<le> s"
  shows "\<bar>(s / (1 + s)) * (x / sqrt (s + e)) - (s / (1 + s)) * (x / sqrt s)\<bar> \<le> e"
proof -
  define r where "r = sqrt s"
  define t where "t = sqrt (s + e)"
  have r: "0 < r" and rs: "r\<^sup>2 = s"
    using s by (simp_all add: r_def)
  have t: "0 < t"
    using s e by (simp add: t_def add_pos_pos)
  have rt: "r \<le> t"
    using e unfolding r_def t_def by simp
  have xr: "\<bar>x\<bar> \<le> r"
    unfolding r_def using x by (simp add: real_le_rsqrt)
  have ratio: "s / (s + e) \<le> r / t"
    using root_ratio(3) [OF r e] by (simp add: rs t_def)
  have inv: "1 / t \<le> 1 / r"
    using r rt by (simp add: frac_le)
  define a where "a = s / (1 + s)"
  have a: "0 \<le> a"
    using s by (simp add: a_def)
  have "\<bar>a * (x / t) - a * (x / r)\<bar> = a * (\<bar>x\<bar> * (1 / r - 1 / t))"
  proof -
    have "a * (x / t) - a * (x / r) = - (a * (x * (1 / r - 1 / t)))"
      by (simp add: algebra_simps)
    then have "\<bar>a * (x / t) - a * (x / r)\<bar> = \<bar>a\<bar> * (\<bar>x\<bar> * \<bar>1 / r - 1 / t\<bar>)"
      by (simp only: abs_minus_cancel abs_mult)
    moreover have "\<bar>a\<bar> = a" and "\<bar>1 / r - 1 / t\<bar> = 1 / r - 1 / t"
      using a inv by simp_all
    ultimately show ?thesis by simp
  qed
  then have "\<bar>(s / (1 + s)) * (x / t) - (s / (1 + s)) * (x / r)\<bar>
      = (s / (1 + s)) * (\<bar>x\<bar> * (1 / r - 1 / t))"
    unfolding a_def .
  also have "\<dots> \<le> (s / (1 + s)) * (r * (1 / r - 1 / t))"
    using s inv xr by (intro mult_left_mono mult_right_mono) simp_all
  also have "r * (1 / r - 1 / t) = 1 - r / t"
    using r by (simp add: algebra_simps)
  also have "(s / (1 + s)) * (1 - r / t) \<le> (s / (1 + s)) * (1 - s / (s + e))"
    using ratio s by (intro mult_left_mono) simp_all
  also have "1 - s / (s + e) = e / (s + e)"
  proof -
    have "1 - s / (s + e) = (s + e) / (s + e) - s / (s + e)"
      using s e by simp
    also have "\<dots> = ((s + e) - s) / (s + e)"
      by (rule diff_divide_distrib [symmetric])
    finally show ?thesis by simp
  qed
  also have "(s / (1 + s)) * (e / (s + e)) = (s / (s + e)) * (e / (1 + s))"
    by simp
  also have "\<dots> \<le> 1 * e"
  proof (rule mult_mono)
    show "s / (s + e) \<le> 1"
      using s e by simp
    have "e / (1 + s) \<le> e / 1"
      using s e by (intro divide_left_mono) simp_all
    then show "e / (1 + s) \<le> e" by simp
    show "0 \<le> e / (1 + s)"
      using s e by simp
  qed simp
  finally show ?thesis
    by (simp add: r_def t_def)
qed

section \<open>The primary capsule layer at a two-capsule feature map\<close>

lemma squash_factor_2_less_1: "squash_factor 2 < squash_factor 1"
proof -
  define e :: real where "e = 1 / 10000000"
  have e: "0 < e" "7 * e < 2" by (simp_all add: e_def)
  have "sqrt (4\<^sup>2 * (1 + e)) < sqrt (3\<^sup>2 * (2 + e))"
    using e by (subst real_sqrt_less_iff) simp
  then have "4 * sqrt (1 + e) < 3 * sqrt (2 + e)"
    by (simp only: real_sqrt_mult real_sqrt_abs abs_numeral)
  moreover have "0 < sqrt (1 + e)" "0 < sqrt (2 + e)"
    using e by (simp_all add: add_pos_pos)
  ultimately have "2 / 3 / sqrt (2 + e) < 1 / 2 / sqrt (1 + e)"
    by (simp add: field_simps)
  then show ?thesis
    by (simp add: squash_factor_def e_def)
qed

lemma squash4_replicate:
  "squash4 (replicate a (replicate b (replicate c v))) =
     replicate a (replicate b (replicate c (squash1 v)))"
  by (simp add: squash4_map)

lemma chop_first: "0 < n \<Longrightarrow> xs \<noteq> [] \<Longrightarrow> chop n xs ! 0 = take n xs"
  by (subst chop.simps) simp

section \<open>routing and the variable store\<close>


section \<open>The configurations of the layer that yield no capsules\<close>

text \<open>
  Claim C10. A layer configured as \<open>'CONV'\<close> with routing, or as \<open>'FC'\<close> without
  routing, never returns a capsule tensor, whatever it is called with: the first falls
  through both blocks of \<open>__call__\<close> and returns \<open>None\<close>, the second reaches
  \<open>return(capsules)\<close> with \<open>capsules\<close> unbound and raises \<open>UnboundLocalError\<close>.
\<close>

theorem CapsLayer_call_unsupported_configurations:
  assumes "layer_type self = ''CONV'' \<and> with_routing self
           \<or> layer_type self = ''FC'' \<and> \<not> with_routing self"
  shows "(layer_type self = ''CONV'' \<longrightarrow>
            snd (CapsLayer_call cfg Wt conv2d self input kernel_size stride) = Inr PyNone)
       \<and> (layer_type self = ''FC'' \<longrightarrow>
            snd (CapsLayer_call cfg Wt conv2d self input kernel_size stride)
              = Inl UnboundLocalError)
       \<and> (\<forall>t. snd (CapsLayer_call cfg Wt conv2d self input kernel_size stride)
              \<noteq> Inr (Capsules4 t))
       \<and> (\<forall>t. snd (CapsLayer_call cfg Wt conv2d self input kernel_size stride)
              \<noteq> Inr (Capsules3 t))"
  using assms by (auto simp: CapsLayer_call_def call_conv_def call_fc_def Let_def)

theorem CapsLayer_call_unsupported_configurations_witness:
  "snd (CapsLayer_call \<lparr>batch_size = 1, iter_routing = 3, stddev = 1 / 100\<rparr> []
          (\<lambda>_ _ _ _. Inl ValueError) (CapsLayer_init 32 8 True ''CONV'') []
          (Some 9) (Some 2)) = Inr PyNone
   \<and> snd (CapsLayer_call \<lparr>batch_size = 1, iter_routing = 3, stddev = 1 / 100\<rparr> []
          (\<lambda>_ _ _ _. Inl ValueError) (CapsLayer_init 10 16 False ''FC'') []
          None None) = Inl UnboundLocalError"
  using CapsLayer_call_unsupported_configurations
          [of "CapsLayer_init 32 8 True ''CONV''"
              "\<lparr>batch_size = 1, iter_routing = 3, stddev = 1 / 100\<rparr>" "[]"
              "\<lambda>_ _ _ _. Inl ValueError" "[]" "Some 9" "Some 2"]
        CapsLayer_call_unsupported_configurations
          [of "CapsLayer_init 10 16 False ''FC''"
              "\<lparr>batch_size = 1, iter_routing = 3, stddev = 1 / 100\<rparr>" "[]"
              "\<lambda>_ _ _ _. Inl ValueError" "[]" None None]
  by (simp add: CapsLayer_init_def)

section \<open>The routing loop refines the specification's algorithm\<close>

text \<open>
  Claim C1. For an input of shape \<open>[batch_size, 1152, 1, 8, 1]\<close> and an iteration
  count of at least one, \<open>routing\<close> starts from logits that are all zero, of shape
  \<open>[batch_size, 1152, 10]\<close>, and returns the pair \<open>(v, b)\<close> that the specification's
  iteration (softmax over the ten higher capsules, weighted sum over the lower
  capsules, squash, agreement, \<open>b + agreement\<close>) yields when it is applied exactly
  \<open>iter_routing\<close> times to the zero logits; \<open>v\<close> has shape \<open>[batch_size, 10, 16]\<close>.
\<close>

theorem routing_refines_spec_routing:
  assumes "is_shape5 1 1152 10 8 16 Wt"
    and "is_shape5 (batch_size cfg) 1152 1 8 1 U"
    and "1 \<le> iter_routing cfg"
  shows "(\<exists>fr0. routing_init cfg Wt U = Inr fr0
            \<and> b_IJ fr0 = replicate (batch_size cfg) (replicate 1152 (replicate 10 0)))
       \<and> (\<exists>v b. routing cfg Wt U = Inr (v, b)
            \<and> is_shape3 (batch_size cfg) 10 16 v
            \<and> is_shape3 (batch_size cfg) 1152 10 b
            \<and> v = tab3 (batch_size cfg) 10 16
                    (fst (spec_routing (iter_routing cfg) (spec_votes Wt U)))
            \<and> b = tab3 (batch_size cfg) 1152 10
                    (snd (spec_routing (iter_routing cfg) (spec_votes Wt U))))"
proof -
  from assms(3) obtain n where n: "iter_routing cfg = Suc n"
    by (cases "iter_routing cfg") simp_all
  have "routing_init cfg Wt U = Inr
          \<lparr>W_tiled = tile_axis0 (batch_size cfg) Wt, input_tiled = tile_axis2 10 U,
           u_hat = tab4 (batch_size cfg) 1152 10 16 (spec_votes Wt U),
           b_IJ = tab3 (batch_size cfg) 1152 10 (\<lambda>_ _ _. 0),
           c_IJ = None, s_J = None, v_J = None, v_J_tiled = None, u_produce_v = None\<rparr>"
    by (rule routing_init_frame [OF assms(1,2)])
  then have init: "\<exists>fr0. routing_init cfg Wt U = Inr fr0
            \<and> b_IJ fr0 = replicate (batch_size cfg) (replicate 1152 (replicate 10 0))"
    by (simp add: tab3_const)
  have "routing cfg Wt U =
     Inr (tab3 (batch_size cfg) 10 16 (fst (spec_routing (iter_routing cfg) (spec_votes Wt U))),
          tab3 (batch_size cfg) 1152 10 (snd (spec_routing (iter_routing cfg) (spec_votes Wt U))))"
    using routing_result [OF assms(1,2) n refl] by (simp add: n spec_routing_Suc)
  with init show ?thesis by simp
qed

theorem routing_refines_spec_routing_witness:
  "\<exists>v b. routing \<lparr>batch_size = 2, iter_routing = 3, stddev = 1 / 100\<rparr>
            (replicate 1 (replicate 1152 (replicate 10 (replicate 8 (replicate 16 1)))))
            (replicate 2 (replicate 1152 (replicate 1 (replicate 8 (replicate 1 1)))))
          = Inr (v, b)
        \<and> is_shape3 2 10 16 v \<and> is_shape3 2 1152 10 b"
  using routing_refines_spec_routing
          [of "replicate 1 (replicate 1152 (replicate 10 (replicate 8 (replicate 16 1))))"
              "\<lparr>batch_size = 2, iter_routing = 3, stddev = 1 / 100\<rparr>"
              "replicate 2 (replicate 1152 (replicate 1 (replicate 8 (replicate 1 1))))"]
        is_shape5_replicate [of 1 1152 10 8 16 1] is_shape5_replicate [of 2 1152 1 8 1 1]
  by auto

section \<open>The votes are computed once\<close>

text \<open>
  Claim C5. The vote tensor \<open>u_hat\<close> is computed before the loop, as
  \<open>u_hat[n, i, j] = transpose(W[i, j]) U[n, i]\<close> with the one weight tensor shared by all
  batch elements, and however many iterations run it stays what it was, as do the
  tiled weight and input: an iteration assigns only the logits, the coupling
  coefficients, the weighted sum, the squashed output, its expanded copy and the
  agreement.
\<close>

theorem u_hat_computed_once_and_unchanged:
  assumes "is_shape5 1 1152 10 8 16 Wt"
    and "is_shape5 (batch_size cfg) 1152 1 8 1 U"
  shows "(\<exists>fr0. routing_init cfg Wt U = Inr fr0
           \<and> is_shape4 (batch_size cfg) 1152 10 16 (u_hat fr0)
           \<and> (\<forall>n<batch_size cfg. \<forall>i<1152. \<forall>j<10. \<forall>d<16.
                 u_hat fr0 ! n ! i ! j ! d
                   = (\<Sum>k<8. Wt ! 0 ! i ! j ! k ! d * U ! n ! i ! 0 ! k ! 0))
           \<and> (\<forall>r. \<exists>fr. routing_loop cfg r fr0 = Inr fr \<and> u_hat fr = u_hat fr0
                 \<and> W_tiled fr = W_tiled fr0 \<and> input_tiled fr = input_tiled fr0))
       \<and> (\<forall>fr fr'. routing_iter cfg fr = Inr fr' \<longrightarrow>
             fr' = fr\<lparr>b_IJ := b_IJ fr', c_IJ := c_IJ fr', s_J := s_J fr', v_J := v_J fr',
                       v_J_tiled := v_J_tiled fr', u_produce_v := u_produce_v fr'\<rparr>)"
proof -
  let ?B = "batch_size cfg"
  let ?u = "spec_votes Wt U"
  let ?fr0 = "\<lparr>W_tiled = tile_axis0 ?B Wt, input_tiled = tile_axis2 10 U,
           u_hat = tab4 ?B 1152 10 16 ?u, b_IJ = tab3 ?B 1152 10 (\<lambda>_ _ _. 0),
           c_IJ = None, s_J = None, v_J = None, v_J_tiled = None, u_produce_v = None\<rparr>"
  have init: "routing_init cfg Wt U = Inr ?fr0"
    by (rule routing_init_frame [OF assms])
  have shape: "is_shape4 ?B 1152 10 16 (u_hat ?fr0)"
    by simp
  have entries: "\<forall>n<?B. \<forall>i<1152. \<forall>j<10. \<forall>d<16.
      u_hat ?fr0 ! n ! i ! j ! d = (\<Sum>k<8. Wt ! 0 ! i ! j ! k ! d * U ! n ! i ! 0 ! k ! 0)"
    by (simp add: nth_tab4 spec_votes_def)
  have loop: "\<exists>fr. routing_loop cfg r ?fr0 = Inr fr \<and> u_hat fr = u_hat ?fr0
      \<and> W_tiled fr = W_tiled ?fr0 \<and> input_tiled fr = input_tiled ?fr0" for r
  proof (cases r)
    case 0
    then show ?thesis by simp
  next
    case (Suc n)
    have "routing_loop cfg (Suc n) ?fr0 =
        Inr (frame_after ?B ?u ((spec_b ?u ^^ n) (\<lambda>_ _ _. 0)) ?fr0)"
      by (rule routing_loop_frame_after) simp_all
    with Suc show ?thesis by simp
  qed
  have frame: "\<forall>fr fr'. routing_iter cfg fr = Inr fr' \<longrightarrow>
             fr' = fr\<lparr>b_IJ := b_IJ fr', c_IJ := c_IJ fr', s_J := s_J fr', v_J := v_J fr',
                       v_J_tiled := v_J_tiled fr', u_produce_v := u_produce_v fr'\<rparr>"
    using routing_iter_frame by blast
  from init shape entries loop frame show ?thesis by blast
qed

theorem u_hat_computed_once_and_unchanged_witness:
  "\<exists>fr0 fr. routing_init \<lparr>batch_size = 2, iter_routing = 3, stddev = 1 / 100\<rparr>
            (replicate 1 (replicate 1152 (replicate 10 (replicate 8 (replicate 16 1)))))
            (replicate 2 (replicate 1152 (replicate 1 (replicate 8 (replicate 1 1)))))
          = Inr fr0
     \<and> routing_loop \<lparr>batch_size = 2, iter_routing = 3, stddev = 1 / 100\<rparr> 3 fr0 = Inr fr
     \<and> u_hat fr = u_hat fr0
     \<and> u_hat fr0 ! 1 ! 1151 ! 9 ! 15 = 8"
proof -
  let ?W = "replicate 1 (replicate 1152 (replicate 10 (replicate 8 (replicate 16 (1::real)))))"
  let ?U = "replicate 2 (replicate 1152 (replicate 1 (replicate 8 (replicate 1 (1::real)))))"
  let ?cfg = "\<lparr>batch_size = 2, iter_routing = 3, stddev = 1 / 100\<rparr>"
  have W: "is_shape5 1 1152 10 8 16 ?W"
    by (rule is_shape5_replicate)
  have U: "is_shape5 (batch_size ?cfg) 1152 1 8 1 ?U"
    using is_shape5_replicate [of 2 1152 1 8 1 1] by simp
  from u_hat_computed_once_and_unchanged [OF W U] obtain fr0 where
      init: "routing_init ?cfg ?W ?U = Inr fr0"
    and entries: "\<forall>n<batch_size ?cfg. \<forall>i<1152. \<forall>j<10. \<forall>d<16.
                 u_hat fr0 ! n ! i ! j ! d
                   = (\<Sum>k<8. ?W ! 0 ! i ! j ! k ! d * ?U ! n ! i ! 0 ! k ! 0)"
    and loop: "\<forall>r. \<exists>fr. routing_loop ?cfg r fr0 = Inr fr \<and> u_hat fr = u_hat fr0
                 \<and> W_tiled fr = W_tiled fr0 \<and> input_tiled fr = input_tiled fr0"
    by blast
  from loop obtain fr where "routing_loop ?cfg 3 fr0 = Inr fr" and "u_hat fr = u_hat fr0"
    by blast
  moreover from entries have "u_hat fr0 ! 1 ! 1151 ! 9 ! 15 = 8"
    by simp
  ultimately show ?thesis
    using init by blast
qed

section \<open>Zero input\<close>

text \<open>
  Claim C7. Whatever the weights and the iteration count (at least one), an input that
  is zero everywhere gives an output \<open>v\<close> that is exactly zero in every component of
  every capsule.
\<close>

theorem zero_input_zero_output:
  assumes "is_shape5 1 1152 10 8 16 Wt" and "1 \<le> iter_routing cfg"
  shows "\<exists>b. routing cfg Wt
           (replicate (batch_size cfg)
              (replicate 1152 (replicate 1 (replicate 8 (replicate 1 0)))))
         = Inr (replicate (batch_size cfg) (replicate 10 (replicate 16 0)), b)"
proof -
  let ?U = "replicate (batch_size cfg)
              (replicate 1152 (replicate 1 (replicate 8 (replicate 1 (0::real)))))"
  from assms(2) obtain n where n: "iter_routing cfg = Suc n"
    by (cases "iter_routing cfg") simp_all
  have U: "is_shape5 (batch_size cfg) 1152 1 8 1 ?U"
    by (rule is_shape5_replicate)
  have "routing cfg Wt ?U =
     Inr (tab3 (batch_size cfg) 10 16
            (spec_v (\<lambda>_ _ _ _. 0) ((spec_b (\<lambda>_ _ _ _. 0) ^^ n) (\<lambda>_ _ _. 0))),
          tab3 (batch_size cfg) 1152 10
            (spec_b (\<lambda>_ _ _ _. 0) ((spec_b (\<lambda>_ _ _ _. 0) ^^ n) (\<lambda>_ _ _. 0))))"
    by (rule routing_result [OF assms(1) U n votes_zero_input])
  then show ?thesis
    by (simp add: spec_v_zero_votes tab3_const)
qed

theorem zero_input_zero_output_witness:
  "\<exists>b. routing \<lparr>batch_size = 2, iter_routing = 3, stddev = 1 / 100\<rparr>
           (replicate 1 (replicate 1152 (replicate 10 (replicate 8 (replicate 16 1)))))
           (replicate 2 (replicate 1152 (replicate 1 (replicate 8 (replicate 1 0)))))
         = Inr (replicate 2 (replicate 10 (replicate 16 0)), b)"
  using zero_input_zero_output
          [of "replicate 1 (replicate 1152 (replicate 10 (replicate 8 (replicate 16 1))))"
              "\<lparr>batch_size = 2, iter_routing = 3, stddev = 1 / 100\<rparr>"]
        is_shape5_replicate [of 1 1152 10 8 16 1]
  by simp

section \<open>The squash formula\<close>

text \<open>
  Claim C4. \<open>squash\<close> returns a tensor of the same shape as its argument (at the two
  ranks the layer calls it with), in which every vector \<open>v\<close> along the last axis has
  become \<open>(s / (1 + s)) * (v / sqrt (s + 1e-7))\<close> with \<open>s\<close> the squared length of \<open>v\<close>.
  On a vector that is not zero the constant \<open>1e-7\<close> moves no component by more than
  \<open>1e-7\<close> away from the squash without it, \<open>(s / (1 + s)) * (v / sqrt s)\<close>.
\<close>

theorem squash_formula_and_shape:
  "squash3 t = map (map (spec_squash_formula (1 / 10000000))) t
   \<and> map (map length) (squash3 t) = map (map length) t
   \<and> squash4 u = map (map (map (spec_squash_formula (1 / 10000000)))) u
   \<and> map (map (map length)) (squash4 u) = map (map (map length)) u
   \<and> (\<forall>v k. (\<exists>x\<in>set v. x \<noteq> 0) \<and> k < length v \<longrightarrow>
         \<bar>spec_squash_formula (1 / 10000000) v ! k - spec_squash_formula 0 v ! k\<bar>
           \<le> 1 / 10000000)"
proof (intro conjI allI impI)
  have len: "length (spec_squash_formula e v) = length v" for e v
    by (simp add: spec_squash_formula_def Let_def)
  show 3: "squash3 t = map (map (spec_squash_formula (1 / 10000000))) t"
    by (simp add: squash3_map squash1_formula [abs_def])
  show "map (map length) (squash3 t) = map (map length) t"
    unfolding 3 by (simp add: comp_def len)
  show 4: "squash4 u = map (map (map (spec_squash_formula (1 / 10000000)))) u"
    by (simp add: squash4_map squash1_formula [abs_def])
  show "map (map (map length)) (squash4 u) = map (map (map length)) u"
    unfolding 4 by (simp add: comp_def len)
next
  fix v :: "real list" and k
  assume a: "(\<exists>x\<in>set v. x \<noteq> 0) \<and> k < length v"
  let ?s = "\<Sum>x\<leftarrow>v. x\<^sup>2"
  from a have s: "0 < ?s" by (simp add: sum_squares_pos)
  from a have "(v ! k)\<^sup>2 \<le> ?s" by (simp add: sq_le_sum_squares)
  from squash_epsilon_bound [OF s _ this, of "1 / 10000000"] a
  show "\<bar>spec_squash_formula (1 / 10000000) v ! k - spec_squash_formula 0 v ! k\<bar>
           \<le> 1 / 10000000"
    by (simp add: spec_squash_formula_def Let_def)
qed

theorem squash_formula_and_shape_witness:
  "\<bar>spec_squash_formula (1 / 10000000) [3, 4] ! 0 - spec_squash_formula 0 [3, 4] ! 0\<bar>
      \<le> 1 / 10000000"
proof -
  have "\<forall>v k. (\<exists>x\<in>set v. x \<noteq> 0) \<and> k < length v \<longrightarrow>
         \<bar>spec_squash_formula (1 / 10000000) v ! k - spec_squash_formula 0 v ! k\<bar>
           \<le> 1 / 10000000"
    using squash_formula_and_shape [of "[]" "[]"] by blast
  then have "(\<exists>x\<in>set [3, 4 :: real]. x \<noteq> 0) \<and> 0 < length [3, 4 :: real] \<longrightarrow>
         \<bar>spec_squash_formula (1 / 10000000) [3, 4] ! 0 - spec_squash_formula 0 [3, 4] ! 0\<bar>
           \<le> 1 / 10000000"
    by blast
  then show ?thesis by simp
qed

section \<open>The parameters of routing\<close>




section \<open>The primary capsule layer squashes over all channels\<close>

text \<open>
  Claim C2 says that the convolutional layer squashes each capsule of eight channels
  on its own. The layer calls \<open>squash\<close> on the convolution's output as it is, so the
  256 channels of a position are squashed as one vector. Batch size 1, a convolution
  whose output is 1 in channels 0 and 8 and 0 elsewhere at every position: the layer
  multiplies every channel by \<open>squash_factor 2\<close> (the squared length of all 256
  channels is 2), where squashing capsule 0 on its own multiplies it by the larger
  \<open>squash_factor 1\<close>.
\<close>

theorem primary_caps_squash_over_all_channels:
  "snd (CapsLayer_call \<lparr>batch_size = 1, iter_routing = 3, stddev = 1 / 100\<rparr> []
          (\<lambda>input n kernel_size stride.
              Inr (replicate 1 (replicate 6 (replicate 6
                     ((1 # replicate 7 0) @ (1 # replicate 7 0) @ replicate 240 0)))))
          (CapsLayer_init 32 8 False ''CONV'')
          (replicate 1 (replicate 20 (replicate 20 (replicate 256 0)))) (Some 9) (Some 2))
     = Inr (Capsules4 (replicate 1 (replicate 6 (replicate 6
              (map ((*) (squash_factor 2))
                 ((1 # replicate 7 0) @ (1 # replicate 7 0) @ replicate 240 0))))))
   \<and> spec_primary_caps 8
         (replicate 1 (replicate 6 (replicate 6
            ((1 # replicate 7 0) @ (1 # replicate 7 0) @ replicate 240 0)))) ! 0 ! 0 ! 0 ! 0
       = map ((*) (squash_factor 1)) (1 # replicate 7 0)
   \<and> squash_factor 2 < squash_factor 1"
proof (intro conjI)
  define v :: "real list" where "v = (1 # replicate 7 0) @ (1 # replicate 7 0) @ replicate 240 0"
  have len: "length v = 256"
    by (simp add: v_def)
  have sq: "squash1 v = map ((*) (squash_factor 2)) v"
    by (subst squash1_scale) (simp add: v_def sum_list_replicate)
  have shapes: "is_shape4 1 20 20 256 (replicate 1 (replicate 20 (replicate 20 (replicate 256 0))))"
    "is_shape4 1 6 6 (8 * 32) (replicate 1 (replicate 6 (replicate 6 v)))"
    "is_shape4 1 6 6 (8 * 32)
       (replicate 1 (replicate 6 (replicate 6 (map ((*) (squash_factor 2)) v))))"
    by (simp_all add: is_shape4_def is_shape3_def is_shape2_def is_shape1_def list_all_iff len)
  have "snd (CapsLayer_call \<lparr>batch_size = 1, iter_routing = 3, stddev = 1 / 100\<rparr> []
          (\<lambda>input n kernel_size stride. Inr (replicate 1 (replicate 6 (replicate 6 v))))
          (CapsLayer_init 32 8 False ''CONV'')
          (replicate 1 (replicate 20 (replicate 20 (replicate 256 0)))) (Some 9) (Some 2))
     = Inr (Capsules4 (replicate 1 (replicate 6 (replicate 6
              (map ((*) (squash_factor 2)) v)))))"
    by (simp add: CapsLayer_call_def call_conv_def CapsLayer_init_def Let_def
        squash4_replicate [of 1, simplified] sq shapes [simplified])
  then show "snd (CapsLayer_call \<lparr>batch_size = 1, iter_routing = 3, stddev = 1 / 100\<rparr> []
          (\<lambda>input n kernel_size stride.
              Inr (replicate 1 (replicate 6 (replicate 6
                     ((1 # replicate 7 0) @ (1 # replicate 7 0) @ replicate 240 0)))))
          (CapsLayer_init 32 8 False ''CONV'')
          (replicate 1 (replicate 20 (replicate 20 (replicate 256 0)))) (Some 9) (Some 2))
     = Inr (Capsules4 (replicate 1 (replicate 6 (replicate 6
              (map ((*) (squash_factor 2))
                 ((1 # replicate 7 0) @ (1 # replicate 7 0) @ replicate 240 0))))))"
    unfolding v_def .
  have "chop 8 v ! 0 = 1 # replicate 7 0"
    by (subst chop_first) (simp_all add: v_def)
  moreover have "chop 8 v \<noteq> []"
    by (subst chop.simps) (simp add: v_def)
  moreover have "squash1 (1 # replicate 7 0) = map ((*) (squash_factor 1)) (1 # replicate 7 0)"
    by (subst squash1_scale) (simp add: sum_list_replicate)
  ultimately have "spec_primary_caps 8 (replicate 1 (replicate 6 (replicate 6 v))) ! 0 ! 0 ! 0 ! 0
       = map ((*) (squash_factor 1)) (1 # replicate 7 0)"
    by (simp add: spec_primary_caps_def)
  then show "spec_primary_caps 8
         (replicate 1 (replicate 6 (replicate 6
            ((1 # replicate 7 0) @ (1 # replicate 7 0) @ replicate 240 0)))) ! 0 ! 0 ! 0 ! 0
       = map ((*) (squash_factor 1)) (1 # replicate 7 0)"
    unfolding v_def .
  show "squash_factor 2 < squash_factor 1"
    by (rule squash_factor_2_less_1)
qed

section \<open>Repeated invocations\<close>




end
